theory Spec2Isabelle
  imports Main
begin

section \<open>The chat client of src/App.jsx: data model\<close>

text \<open>
  The component \<open>App\<close> keeps its state in React hooks and talks to the backend with
  \<open>fetch\<close>. The embedding makes both explicit:
  \<^item> the hook values are the fields of the record \<open>app_state\<close>, and every handler takes
    the state and returns the updated one;
  \<^item> the outcome of each \<open>fetch\<close> (what the network answers) is an argument of the
    handler, so a handler is a function of the state and of what the backend does;
  \<^item> what a handler does to the outside (requests sent, timers awaited, console output,
    the un-awaited call of \<open>wakeUpServer\<close>) is returned as a list of \<open>effect\<close>s, in
    program order.
  A handler reads \<open>serverStatus\<close>, \<open>input\<close>, \<open>loading\<close> and \<open>sessionId\<close> from the state it
  is given (the values of the render that created it) and is run to its end from there;
  only the section on in-flight cycles interleaves several activations.
  The \<open>timestamp\<close> field of a chat message (the wall clock), the request headers, the
  theme and the DOM references are left out: no handler branches on them.
\<close>

subsection \<open>JavaScript values, errors and responses\<close>

text \<open>
  The values the handlers read from a parsed body and keep in the hooks. Objects nested
  inside a body are not modelled: no handler reads into one.
\<close>

datatype jsval = Null | Undefined | Bool bool | Num nat | Str string | Arr "jsval list"

text \<open>Truthiness and \<open>a || b\<close>.\<close>

fun truthy :: "jsval \<Rightarrow> bool" where
  "truthy Null = False"
| "truthy Undefined = False"
| "truthy (Bool b) = b"
| "truthy (Num n) = (n \<noteq> 0)"
| "truthy (Str s) = (s \<noteq> [])"
| "truthy (Arr vs) = True"

definition js_or :: "jsval \<Rightarrow> jsval \<Rightarrow> jsval" where
  "js_or a b = (if truthy a then a else b)"

text \<open>The decimal numeral of a number, as a template literal prints it.\<close>

definition digit :: "nat \<Rightarrow> char" where
  "digit d = ''0123456789'' ! d"

function String_of_nat :: "nat \<Rightarrow> string" where
  "String_of_nat n = (if n < 10 then [digit n] else String_of_nat (n div 10) @ [digit (n mod 10)])"
  by pat_completeness auto
termination
  by (relation "measure id") auto

declare String_of_nat.simps [simp del]

fun join :: "string \<Rightarrow> string list \<Rightarrow> string" where
  "join sep [] = []"
| "join sep [s] = s"
| "join sep (s # t # ss) = s @ sep @ join sep (t # ss)"

text \<open>The conversion to a string that a template literal does.\<close>

fun ToString :: "jsval \<Rightarrow> string" where
  "ToString Null = ''null''"
| "ToString Undefined = ''undefined''"
| "ToString (Bool b) = (if b then ''true'' else ''false'')"
| "ToString (Num n) = String_of_nat n"
| "ToString (Str s) = s"
| "ToString (Arr vs) =
     join '','' (map (\<lambda>v. if v = Null \<or> v = Undefined then [] else ToString v) vs)"

text \<open>An exception value: \<open>error.name\<close> and \<open>error.message\<close>.\<close>

record js_error =
  err_name :: string
  err_message :: string

text \<open>
  A response that \<open>fetch\<close> resolved with: its status code, and what \<open>response.json()\<close>
  gives: the parsed object (a property read of an absent key is \<open>Undefined\<close>), or the
  exception it rejects with when the body is not JSON.
\<close>

record response =
  status :: nat
  json :: "js_error + (string \<Rightarrow> jsval)"

definition ok :: "response \<Rightarrow> bool" where
  "ok r = (200 \<le> status r \<and> status r \<le> 299)"

datatype fetch_result = Resolved response | Rejected js_error

subsection \<open>Strings\<close>

text \<open>\<open>String.prototype.includes\<close>: the needle occurs as a contiguous run.\<close>

fun includes_str :: "string \<Rightarrow> string \<Rightarrow> bool" where
  "includes_str [] sub = (sub = [])"
| "includes_str (c # cs) sub = (take (length sub) (c # cs) = sub \<or> includes_str cs sub)"

text \<open>
  \<open>String.prototype.trim\<close>, for the white space of ASCII: tab, line feed, vertical tab,
  form feed, carriage return and space. The white space beyond ASCII is not stripped here.
\<close>

definition is_space :: "char \<Rightarrow> bool" where
  "is_space c = (c \<in> set [CHR 0x09, CHR 0x0A, CHR 0x0B, CHR 0x0C, CHR 0x0D, CHR '' ''])"

definition trim :: "string \<Rightarrow> string" where
  "trim s = rev (dropWhile is_space (rev (dropWhile is_space s)))"

text \<open>The three emoji of the message texts, as their UTF-8 bytes.\<close>

definition WAVING_HAND :: string where
  "WAVING_HAND = [CHR 0xF0, CHR 0x9F, CHR 0x91, CHR 0x8B]"

definition SLEEPING_FACE :: string where
  "SLEEPING_FACE = [CHR 0xF0, CHR 0x9F, CHR 0x98, CHR 0xB4]"

definition CROSS_MARK :: string where
  "CROSS_MARK = [CHR 0xE2, CHR 0x9D, CHR 0x8C]"

subsection \<open>The state of the component\<close>

datatype server_status = Checking | Waking | Ready | Error

text \<open>A chat message; \<open>msg_text\<close> is the field \<open>text\<close> of the source.\<close>

record chat_message =
  sender :: string
  msg_text :: jsval
  responseTime :: jsval

record app_state =
  serverStatus :: server_status
  messages :: "chat_message list"
  input :: string
  loading :: bool
  sessionId :: jsval
  typingIndicator :: bool
  showLeads :: bool
  recentLeads :: jsval
  wakeAttempts :: nat
  connectionError :: "string option"

text \<open>The values the hooks start with.\<close>

definition initial_state :: app_state where
  "initial_state = \<lparr> serverStatus = Checking, messages = [], input = [], loading = False,
     sessionId = Null, typingIndicator = False, showLeads = False, recentLeads = Null,
     wakeAttempts = 0, connectionError = None \<rparr>"

text \<open>\<open>API_URL\<close> and \<open>WAKE_TOKEN\<close> come from the build environment.\<close>

record config =
  API_URL :: string
  WAKE_TOKEN :: string

text \<open>
  What a handler does to the outside. \<open>Fetch m url body t\<close> is a call of \<open>fetch\<close> with
  method \<open>m\<close>; \<open>body\<close> is the object given to \<open>JSON.stringify\<close>, if any; \<open>t\<close> is
  \<open>Some ms\<close> when the call is given the \<open>signal\<close> of an \<open>AbortController\<close> that a timer
  aborts after \<open>ms\<close> milliseconds, and \<open>None\<close> when the call is given no \<open>signal\<close>.
  \<open>Delay ms\<close> is an awaited \<open>setTimeout\<close>. \<open>Call_wakeUpServer\<close> is a call of
  \<open>wakeUpServer()\<close> that is not awaited.
\<close>

datatype effect =
    Fetch string string "(string \<times> jsval) list option" "nat option"
  | Delay nat
  | ConsoleLog string
  | ConsoleError string
  | Call_wakeUpServer

section \<open>Health probe, wake trigger and the reconnection cycle\<close>

subsection \<open>\<open>checkServerHealth\<close> (lines 97-125)\<close>

definition welcome_back_message :: chat_message where
  "welcome_back_message =
     \<lparr> sender = ''ai'',
       msg_text = Str (WAVING_HAND @ '' Server wapas aa gaya! Kaise help karu?''),
       responseTime = Undefined \<rparr>"

text \<open>The argument \<open>r\<close> is the outcome of the request to \<open>/api/health\<close>.\<close>

definition checkServerHealth ::
  "config \<Rightarrow> fetch_result \<Rightarrow> app_state \<Rightarrow> bool \<times> app_state \<times> effect list" where
  "checkServerHealth cfg r st =
     (let probe = Fetch ''GET'' (API_URL cfg @ ''/api/health'') None (Some 5000) in
      case r of
        Resolved response \<Rightarrow>
          if ok response then
            (True,
             if serverStatus st \<noteq> Ready
             then st\<lparr>serverStatus := Ready, messages := [welcome_back_message]\<rparr>
             else st,
             [probe])
          else (False, st, [probe])
      | Rejected error \<Rightarrow>
          (False, st, [probe, ConsoleLog (''Health check failed: '' @ err_message error)]))"

subsection \<open>\<open>triggerWakeUp\<close> (lines 128-164)\<close>

text \<open>
  \<open>wake\<close> is the outcome of the request to \<open>/api/wake\<close>, \<open>trigger\<close> the outcome of the
  request to \<open>/api/trigger-wake\<close> should it be sent. The second request sits in the
  \<open>catch\<close> block of the first; a response that is not \<open>ok\<close> leaves either \<open>try\<close> block
  without an exception and falls through to \<open>return false\<close>.
\<close>

definition triggerWakeUp :: "config \<Rightarrow> fetch_result \<Rightarrow> fetch_result \<Rightarrow> bool \<times> effect list" where
  "triggerWakeUp cfg wake trigger =
     (let wake_request = Fetch ''GET'' (API_URL cfg @ ''/api/wake'') None (Some 10000);
          trigger_request =
            Fetch ''GET'' (API_URL cfg @ ''/api/trigger-wake?token='' @ WAKE_TOKEN cfg) None None
      in case wake of
        Resolved wakeResponse \<Rightarrow>
          if ok wakeResponse
          then (True, [wake_request, ConsoleLog ''Wake signal sent successfully''])
          else (False, [wake_request])
      | Rejected error \<Rightarrow>
          (let attempted =
             [wake_request, ConsoleLog (''Wake endpoint failed: '' @ err_message error),
              trigger_request]
           in case trigger of
             Resolved triggerResponse \<Rightarrow>
               if ok triggerResponse
               then (True, attempted @ [ConsoleLog ''Trigger wake successful''])
               else (False, attempted)
           | Rejected e \<Rightarrow>
               (False, attempted @ [ConsoleLog (''Trigger wake failed: '' @ err_message e)])))"

subsection \<open>\<open>wakeUpServer\<close> (lines 167-222)\<close>

text \<open>
  What the backend answers during one cycle: \<open>health_probe w i\<close> is the outcome of the
  \<open>i\<close>-th request to \<open>/api/health\<close> that the cycle sends (counted from 0), and
  \<open>wake_signal\<close>, \<open>trigger_signal\<close> are the outcomes of the two requests of
  \<open>triggerWakeUp\<close>.
\<close>

record world =
  health_probe :: "nat \<Rightarrow> fetch_result"
  wake_signal :: fetch_result
  trigger_signal :: fetch_result

definition maxRetries :: nat where
  "maxRetries = 5"

definition baseDelay :: nat where
  "baseDelay = 3000"

definition welcome_message :: chat_message where
  "welcome_message =
     \<lparr> sender = ''ai'',
       msg_text = Str (WAVING_HAND @ '' Namaste! Main aapka AI Agent hu. Kaise help kar sakta hu?''),
       responseTime = Undefined \<rparr>"

text \<open>
  One pass through the body of the \<open>while\<close> loop either returns from \<open>wakeUpServer\<close> or
  goes back to the loop test with a value of the local variable \<open>retries\<close>.
\<close>

datatype pass = Returned bool | Again nat

text \<open>The \<open>catch\<close> block (lines 199-216), entered with the exception and \<open>retries\<close>.\<close>

definition wake_catch ::
  "config \<Rightarrow> world \<Rightarrow> js_error \<Rightarrow> nat \<Rightarrow> app_state \<Rightarrow> pass \<times> app_state \<times> effect list" where
  "wake_catch cfg w error retries st =
     (let logged =
            [ConsoleLog (''Wake attempt '' @ String_of_nat (retries + 1) @ '' failed: ''
                          @ err_message error)];
          (st1, es1) =
            (if retries = 0
             then (st\<lparr>serverStatus := Waking\<rparr>,
                   logged @ snd (triggerWakeUp cfg (wake_signal w) (trigger_signal w)))
             else (st, logged));
          retries1 = retries + 1
      in if retries1 < maxRetries
         then (let waitTime = baseDelay * 2 ^ (retries1 - 1)
               in (Again retries1,
                   st1\<lparr>connectionError :=
                          Some (''Wake attempt '' @ String_of_nat retries1 @ ''/''
                                @ String_of_nat maxRetries @ ''...'')\<rparr>,
                   es1 @ [Delay waitTime]))
         else (Again retries1, st1, es1))"

text \<open>
  The body of the loop (lines 176-216) for the probe outcome \<open>r\<close>. A probe that resolves
  with a response that is not \<open>ok\<close> raises nothing: the \<open>try\<close> block ends, the \<open>catch\<close>
  block is skipped, and \<open>retries\<close> is what it was.
\<close>

definition wake_attempt ::
  "config \<Rightarrow> world \<Rightarrow> fetch_result \<Rightarrow> nat \<Rightarrow> app_state \<Rightarrow> pass \<times> app_state \<times> effect list" where
  "wake_attempt cfg w r retries st =
     (let probe = Fetch ''GET'' (API_URL cfg @ ''/api/health'') None (Some 8000);
          (p, st1, es) =
            (case r of
               Resolved healthRes \<Rightarrow>
                 if ok healthRes then
                   (case json healthRes of
                      Inr data \<Rightarrow>
                        (Returned True,
                         st\<lparr>serverStatus := Ready, wakeAttempts := 0,
                            messages := [welcome_message]\<rparr>,
                         [])
                    | Inl error \<Rightarrow> wake_catch cfg w error retries st)
                 else (Again retries, st, [])
             | Rejected error \<Rightarrow> wake_catch cfg w error retries st)
      in (p, st1, probe # es))"

text \<open>What follows the loop (lines 219-220).\<close>

definition wake_failed :: "app_state \<Rightarrow> app_state" where
  "wake_failed st =
     st\<lparr>serverStatus := Error,
        connectionError := Some ''Server wake failed after multiple attempts''\<rparr>"

text \<open>
  The loop may go on for ever, so it is a partial function: \<open>None\<close> is the cycle that
  never returns. \<open>i\<close> counts the probes sent so far and \<open>tr\<close> collects the effects.
\<close>

partial_function (option) wake_loop ::
  "config \<Rightarrow> world \<Rightarrow> nat \<Rightarrow> nat \<Rightarrow> app_state \<Rightarrow> effect list
     \<Rightarrow> (bool \<times> app_state \<times> effect list) option" where
  "wake_loop cfg w i retries st tr =
     (if retries < maxRetries then
        (case wake_attempt cfg w (health_probe w i) retries st of
           (Returned b, st1, es) \<Rightarrow> Some (b, st1, tr @ es)
         | (Again retries1, st1, es) \<Rightarrow> wake_loop cfg w (Suc i) retries1 st1 (tr @ es))
      else Some (False, wake_failed st, tr))"

declare wake_loop.simps [code]

definition wakeUpServer ::
  "config \<Rightarrow> world \<Rightarrow> app_state \<Rightarrow> (bool \<times> app_state \<times> effect list) option" where
  "wakeUpServer cfg w st =
     wake_loop cfg w 0 0 (st\<lparr>connectionError := None, wakeAttempts := wakeAttempts st + 1\<rparr>) []"

section \<open>Keep-alive, session, chat and the manual retry\<close>

subsection \<open>\<open>sendKeepAlive\<close> (lines 51-74)\<close>

definition RED_HEART :: string where
  "RED_HEART = [CHR 0xE2, CHR 0x9D, CHR 0xA4, CHR 0xEF, CHR 0xB8, CHR 0x8F]"

text \<open>
  \<open>r\<close> is the outcome of the request to \<open>/api/keep-alive\<close>. The response is awaited and
  not looked at; only a rejected \<open>fetch\<close> reaches the \<open>catch\<close> block.
\<close>

definition sendKeepAlive :: "config \<Rightarrow> fetch_result \<Rightarrow> app_state \<Rightarrow> app_state \<times> effect list" where
  "sendKeepAlive cfg r st =
     (if serverStatus st \<noteq> Ready then (st, [])
      else
        (let ping = Fetch ''POST'' (API_URL cfg @ ''/api/keep-alive'') None (Some 5000) in
         case r of
           Resolved response \<Rightarrow> (st, [ping, ConsoleLog (RED_HEART @ '' Keep-alive sent'')])
         | Rejected error \<Rightarrow>
             (let logged =
                ConsoleLog (''Keep-alive failed (server might be sleeping): ''
                            @ err_message error)
              in if serverStatus st = Ready
                 then (st\<lparr>serverStatus := Checking\<rparr>, [ping, logged, Call_wakeUpServer])
                 else (st, [ping, logged]))))"

subsection \<open>\<open>initSession\<close> (lines 237-261)\<close>

text \<open>
  \<open>r\<close> is the outcome of the request to \<open>/api/session/init\<close>. The status of the response
  is not looked at: whatever parses as JSON has its \<open>sessionId\<close> stored.
\<close>

definition initSession :: "config \<Rightarrow> fetch_result \<Rightarrow> app_state \<Rightarrow> app_state \<times> effect list" where
  "initSession cfg r st =
     (if serverStatus st \<noteq> Ready then (st, [])
      else
        (let request = Fetch ''POST'' (API_URL cfg @ ''/api/session/init'') None (Some 10000);
             caught = (\<lambda>error.
               (st, [request,
                     ConsoleError (''Session init error: '' @ err_name error @ '': ''
                                   @ err_message error)]))
         in case r of
           Resolved response \<Rightarrow>
             (case json response of
                Inr data \<Rightarrow> (st\<lparr>sessionId := data ''sessionId''\<rparr>, [request])
              | Inl error \<Rightarrow> caught error)
         | Rejected error \<Rightarrow> caught error))"

subsection \<open>\<open>sendMessage\<close> (lines 263-351)\<close>

definition asleep_message :: chat_message where
  "asleep_message =
     \<lparr> sender = ''ai'',
       msg_text =
         Str (SLEEPING_FACE @ '' Server so raha hai. Wake up kar raha hu... 30 sec wait karo.''),
       responseTime = Undefined \<rparr>"

definition connection_error_message :: chat_message where
  "connection_error_message =
     \<lparr> sender = ''ai'',
       msg_text = Str (CROSS_MARK @ '' Connection error. Internet check karo.''),
       responseTime = Undefined \<rparr>"

definition append_message :: "chat_message \<Rightarrow> app_state \<Rightarrow> app_state" where
  "append_message m st = st\<lparr>messages := messages st @ [m]\<rparr>"

text \<open>The branches taken once the body has parsed (lines 296-326).\<close>

definition chat_response ::
  "response \<Rightarrow> (string \<Rightarrow> jsval) \<Rightarrow> app_state \<Rightarrow> app_state \<times> effect list" where
  "chat_response response data st =
     (let st1 = st\<lparr>typingIndicator := False\<rparr> in
      if ok response then
        (let st2 = append_message
                     \<lparr> sender = ''ai'', msg_text = data ''reply'',
                       responseTime = data ''responseTime'' \<rparr> st1
         in (if truthy (data ''sessionId'') then st2\<lparr>sessionId := data ''sessionId''\<rparr> else st2,
             []))
      else if status response = 503 \<or> status response = 504 then
        (append_message asleep_message (st1\<lparr>serverStatus := Waking\<rparr>), [Call_wakeUpServer])
      else
        (append_message
           \<lparr> sender = ''ai'',
             msg_text =
               Str (CROSS_MARK @ '' '' @ ToString (js_or (data ''error'') (Str ''Kuch error hua''))),
             responseTime = Undefined \<rparr> st1,
         []))"

text \<open>The \<open>catch\<close> block (lines 327-346).\<close>

definition chat_catch :: "js_error \<Rightarrow> app_state \<Rightarrow> app_state \<times> effect list" where
  "chat_catch error st =
     (let st1 = st\<lparr>typingIndicator := False\<rparr> in
      if err_name error = ''AbortError'' \<or> includes_str (err_message error) ''Failed to fetch''
      then (append_message asleep_message (st1\<lparr>serverStatus := Waking\<rparr>), [Call_wakeUpServer])
      else (append_message connection_error_message st1,
            [ConsoleError (''Fetch error: '' @ err_name error @ '': '' @ err_message error)]))"

text \<open>
  \<open>r\<close> is the outcome of the request to \<open>/api/chat\<close>. The body is parsed before the
  status is looked at, so a body that is not JSON goes to the \<open>catch\<close> block whatever
  the status is.
\<close>

definition sendMessage :: "config \<Rightarrow> fetch_result \<Rightarrow> app_state \<Rightarrow> app_state \<times> effect list" where
  "sendMessage cfg r st =
     (if trim (input st) = [] \<or> serverStatus st \<noteq> Ready \<or> loading st then (st, [])
      else
        (let userMessage =
               \<lparr> sender = ''user'', msg_text = Str (trim (input st)), responseTime = Undefined \<rparr>;
             currentInput = trim (input st);
             st1 = (append_message userMessage st)
                     \<lparr>input := [], loading := True, typingIndicator := True\<rparr>;
             request =
               Fetch ''POST'' (API_URL cfg @ ''/api/chat'')
                 (Some [(''message'', Str currentInput), (''sessionId'', sessionId st)])
                 (Some 30000);
             (st2, es) =
               (case r of
                  Resolved response \<Rightarrow>
                    (case json response of
                       Inr data \<Rightarrow> chat_response response data st1
                     | Inl error \<Rightarrow> chat_catch error st1)
                | Rejected error \<Rightarrow> chat_catch error st1)
         in (st2\<lparr>loading := False\<rparr>, request # es)))"

subsection \<open>\<open>loadRecentLeads\<close> (lines 353-370)\<close>

definition loadRecentLeads :: "config \<Rightarrow> fetch_result \<Rightarrow> app_state \<Rightarrow> app_state \<times> effect list" where
  "loadRecentLeads cfg r st =
     (let request = Fetch ''GET'' (API_URL cfg @ ''/api/leads/recent'') None (Some 10000);
          caught = (\<lambda>error.
            (st, [request,
                  ConsoleError (''Failed to load leads: '' @ err_name error @ '': ''
                                @ err_message error)]))
      in case r of
        Resolved response \<Rightarrow>
          (case json response of
             Inr data \<Rightarrow>
               (st\<lparr>recentLeads := js_or (data ''leads'') (Arr []), showLeads := True\<rparr>,
                [request])
           | Inl error \<Rightarrow> caught error)
      | Rejected error \<Rightarrow> caught error)"

subsection \<open>\<open>manualWakeUp\<close> (lines 379-382)\<close>

definition manualWakeUp :: "app_state \<Rightarrow> app_state \<times> effect list" where
  "manualWakeUp st = (st\<lparr>serverStatus := Waking\<rparr>, [Call_wakeUpServer])"

section \<open>Reading a trace\<close>

text \<open>The awaited delays of a trace, in order.\<close>

fun delays :: "effect list \<Rightarrow> nat list" where
  "delays [] = []"
| "delays (Delay ms # es) = ms # delays es"
| "delays (e # es) = delays es"

text \<open>The requests of a trace, as the URL and the abort timer of each.\<close>

fun requests :: "effect list \<Rightarrow> (string \<times> nat option) list" where
  "requests [] = []"
| "requests (Fetch m url b t # es) = (url, t) # requests es"
| "requests (e # es) = requests es"

text \<open>How many requests of a trace go to the path \<open>path\<close> of the backend.\<close>

definition requests_to :: "config \<Rightarrow> string \<Rightarrow> effect list \<Rightarrow> nat" where
  "requests_to cfg path es = length (filter (\<lambda>(url, t). url = API_URL cfg @ path) (requests es))"

text \<open>How many times a trace calls \<open>wakeUpServer\<close>.\<close>

definition reconnects :: "effect list \<Rightarrow> nat" where
  "reconnects es = length (filter (\<lambda>e. e = Call_wakeUpServer) es)"

text \<open>The request that \<open>sendMessage\<close> sends for the typed message and a session id.\<close>

definition chat_request :: "config \<Rightarrow> string \<Rightarrow> jsval \<Rightarrow> effect" where
  "chat_request cfg message session =
     Fetch ''POST'' (API_URL cfg @ ''/api/chat'')
       (Some [(''message'', Str message), (''sessionId'', session)]) (Some 30000)"

text \<open>Whether every request of a trace was given an abort timer.\<close>

definition all_timed :: "effect list \<Rightarrow> bool" where
  "all_timed es = list_all (\<lambda>(url, t). t \<noteq> None) (requests es)"

text \<open>The request of a health probe of \<open>wakeUpServer\<close>.\<close>

definition health_request :: "config \<Rightarrow> effect" where
  "health_request cfg = Fetch ''GET'' (API_URL cfg @ ''/api/health'') None (Some 8000)"

text \<open>The delay awaited after the failed attempt number \<open>n + 1\<close> (line 212).\<close>

definition backoff :: "nat \<Rightarrow> nat" where
  "backoff n = baseDelay * 2 ^ n"

text \<open>
  What is observed of a cycle: the value returned, the final \<open>serverStatus\<close> and
  \<open>wakeAttempts\<close>, the delays awaited, and the numbers of requests sent to \<open>/api/health\<close>
  and to \<open>/api/wake\<close> (one for each call of \<open>triggerWakeUp\<close>).
\<close>

definition summary :: "config \<Rightarrow> (bool \<times> app_state \<times> effect list) option
    \<Rightarrow> (bool \<times> server_status \<times> nat \<times> nat list \<times> nat \<times> nat) option" where
  "summary cfg result =
     map_option (\<lambda>(b, st, tr).
        (b, serverStatus st, wakeAttempts st, delays tr,
         requests_to cfg ''/api/health'' tr, requests_to cfg ''/api/wake'' tr)) result"

section \<open>Kinds of outcome\<close>

text \<open>
  The exception, if any, that awaiting a request and then parsing its body raises
  (\<open>initSession\<close>, \<open>sendMessage\<close> and \<open>loadRecentLeads\<close> parse whatever resolves).
\<close>

definition raised :: "fetch_result \<Rightarrow> js_error option" where
  "raised r =
     (case r of
        Rejected error \<Rightarrow> Some error
      | Resolved response \<Rightarrow>
          (case json response of Inl error \<Rightarrow> Some error | Inr data \<Rightarrow> None))"

text \<open>
  The three outcomes of a health probe in \<open>wakeUpServer\<close>, which parses the body of an
  \<open>ok\<close> response only: the probe succeeds, it raises an exception into the \<open>catch\<close>
  block, or it resolves with a status outside 200-299.
\<close>

definition probe_succeeds :: "fetch_result \<Rightarrow> bool" where
  "probe_succeeds r =
     (case r of
        Resolved healthRes \<Rightarrow> ok healthRes \<and> (case json healthRes of Inr data \<Rightarrow> True | Inl error \<Rightarrow> False)
      | Rejected error \<Rightarrow> False)"

definition probe_raises :: "fetch_result \<Rightarrow> js_error option" where
  "probe_raises r =
     (case r of
        Resolved healthRes \<Rightarrow> if ok healthRes then raised r else None
      | Rejected error \<Rightarrow> Some error)"

definition probe_not_ok :: "fetch_result \<Rightarrow> bool" where
  "probe_not_ok r = (case r of Resolved healthRes \<Rightarrow> \<not> ok healthRes | Rejected error \<Rightarrow> False)"

text \<open>A world in which every health probe is answered with a status outside 200-299.\<close>

definition never_ok :: "world \<Rightarrow> bool" where
  "never_ok w = (\<forall>i. probe_not_ok (health_probe w i))"

text \<open>The test of the \<open>catch\<close> block of \<open>sendMessage\<close> (line 330).\<close>

definition asleep_error :: "js_error \<Rightarrow> bool" where
  "asleep_error error =
     (err_name error = ''AbortError'' \<or> includes_str (err_message error) ''Failed to fetch'')"

text \<open>The guard of \<open>sendMessage\<close> (line 264) lets the message through.\<close>

definition can_send :: "app_state \<Rightarrow> bool" where
  "can_send st = (trim (input st) \<noteq> [] \<and> serverStatus st = Ready \<and> \<not> loading st)"

definition user_message :: "app_state \<Rightarrow> chat_message" where
  "user_message st =
     \<lparr> sender = ''user'', msg_text = Str (trim (input st)), responseTime = Undefined \<rparr>"

section \<open>Cycles in flight\<close>

text \<open>
  A call of \<open>wakeUpServer\<close> runs up to its first \<open>await\<close> and then gives control back; it
  goes on when the awaited request is answered. The runtime therefore holds, beside the
  state of the component, the calls that have not returned yet. \<open>in_flight\<close> lists them,
  oldest first, each by the value of its local variable \<open>retries\<close>. A pass through the
  loop body is taken as one step here, from the answer of its probe to the next probe.
\<close>

record system =
  app :: app_state
  in_flight :: "nat list"

text \<open>The call itself: lines 168-171, up to the first probe.\<close>

definition call_wakeUpServer :: "system \<Rightarrow> system" where
  "call_wakeUpServer s =
     \<lparr> app = (app s)\<lparr>connectionError := None, wakeAttempts := wakeAttempts (app s) + 1\<rparr>,
       in_flight = in_flight s @ [0] \<rparr>"

text \<open>The calls of \<open>wakeUpServer\<close> that a handler made are started in order.\<close>

fun run_calls :: "effect list \<Rightarrow> system \<Rightarrow> system" where
  "run_calls [] s = s"
| "run_calls (Call_wakeUpServer # es) s = run_calls es (call_wakeUpServer s)"
| "run_calls (e # es) s = run_calls es s"

text \<open>Mounting the component (lines 225-234) calls \<open>wakeUpServer\<close>.\<close>

definition mount :: system where
  "mount = call_wakeUpServer \<lparr> app = initial_state, in_flight = [] \<rparr>"

text \<open>
  The retry button is rendered on the screens for \<open>waking\<close> and \<open>error\<close> (lines 437 and
  459); a click runs \<open>manualWakeUp\<close>.
\<close>

definition click_retry :: "system \<Rightarrow> system" where
  "click_retry s =
     (if serverStatus (app s) = Waking \<or> serverStatus (app s) = Error
      then (let (st, es) = manualWakeUp (app s) in run_calls es (s\<lparr>app := st\<rparr>))
      else s)"

text \<open>
  The probe of the \<open>k\<close>-th call in flight is answered with \<open>r\<close>: the call takes one pass
  through the loop body, and then returns or sends its next probe.
\<close>

definition remove_nth :: "nat \<Rightarrow> 'a list \<Rightarrow> 'a list" where
  "remove_nth k xs = take k xs @ drop (Suc k) xs"

definition probe_answered :: "config \<Rightarrow> world \<Rightarrow> nat \<Rightarrow> fetch_result \<Rightarrow> system \<Rightarrow> system" where
  "probe_answered cfg w k r s =
     (if k < length (in_flight s) then
        (case wake_attempt cfg w r (in_flight s ! k) (app s) of
           (Returned b, st1, es) \<Rightarrow> \<lparr> app = st1, in_flight = remove_nth k (in_flight s) \<rparr>
         | (Again retries1, st1, es) \<Rightarrow>
             if retries1 < maxRetries
             then \<lparr> app = st1, in_flight = (in_flight s)[k := retries1] \<rparr>
             else \<lparr> app = wake_failed st1, in_flight = remove_nth k (in_flight s) \<rparr>)
      else s)"

section \<open>Inputs used to run the handlers\<close>

text \<open>The fallbacks of lines 23-24.\<close>

definition default_config :: config where
  "default_config =
     \<lparr> API_URL = ''https://ai-agent-backend-1-g21l.onrender.com'',
       WAKE_TOKEN = ''your-secret-token-here'' \<rparr>"

text \<open>What a browser rejects a \<open>fetch\<close> with when the network fails, and on an abort.\<close>

definition network_error :: js_error where
  "network_error = \<lparr> err_name = ''TypeError'', err_message = ''Failed to fetch'' \<rparr>"

definition abort_error :: js_error where
  "abort_error = \<lparr> err_name = ''AbortError'', err_message = ''The user aborted a request.'' \<rparr>"

text \<open>What \<open>response.json()\<close> rejects with on a body that is an HTML page.\<close>

definition syntax_error :: js_error where
  "syntax_error =
     \<lparr> err_name = ''SyntaxError'', err_message = ''Unexpected token < in JSON at position 0'' \<rparr>"

text \<open>A response with a JSON body, and one whose body is an HTML page.\<close>

definition http_json :: "nat \<Rightarrow> (string \<Rightarrow> jsval) \<Rightarrow> fetch_result" where
  "http_json code data = Resolved \<lparr> status = code, json = Inr data \<rparr>"

definition http_html :: "nat \<Rightarrow> fetch_result" where
  "http_html code = Resolved \<lparr> status = code, json = Inl syntax_error \<rparr>"

definition no_fields :: "string \<Rightarrow> jsval" where
  "no_fields = (\<lambda>key. Undefined)"

text \<open>
  The world in which the probes of a cycle are answered by \<open>rs\<close> in turn and by \<open>r\<close>
  from then on, and both wake requests are rejected.
\<close>

definition world_of :: "fetch_result list \<Rightarrow> fetch_result \<Rightarrow> world" where
  "world_of rs r =
     \<lparr> health_probe = (\<lambda>i. if i < length rs then rs ! i else r),
       wake_signal = Rejected network_error,
       trigger_signal = Rejected network_error \<rparr>"

text \<open>The state of a running conversation: ready, one message typed.\<close>

definition chatting :: app_state where
  "chatting =
     initial_state\<lparr> serverStatus := Ready, messages := [welcome_message],
                    input := ''hello'', sessionId := Str ''abc123'' \<rparr>"

text \<open>The same conversation after a message whose request timed out.\<close>

definition interrupted :: app_state where
  "interrupted = fst (sendMessage default_config (Rejected abort_error) chatting)"

text \<open>A backend that cannot be reached, and the system after the first probe failed.\<close>

definition offline :: world where
  "offline = world_of [] (Rejected network_error)"

definition first_probe_failed :: system where
  "first_probe_failed = probe_answered default_config offline 0 (Rejected network_error) mount"

section \<open>Facts about the inputs and about traces\<close>

lemma trim_hello: "trim ''hello'' = ''hello''"
  by (simp add: trim_def is_space_def)

lemma can_send_chatting: "can_send chatting"
  by (simp add: can_send_def chatting_def initial_state_def trim_hello)

lemma typed_hello:
  "trim (input chatting) = ''hello''" "sessionId chatting = Str ''abc123''"
  by (simp_all add: chatting_def initial_state_def trim_hello)

lemma interrupted_eq:
  "interrupted =
     chatting\<lparr> messages := [welcome_message,
                    \<lparr> sender = ''user'', msg_text = Str ''hello'', responseTime = Undefined \<rparr>,
                    asleep_message],
                input := [], serverStatus := Waking \<rparr>"
  by (simp add: interrupted_def sendMessage_def chat_catch_def append_message_def Let_def
        chatting_def initial_state_def abort_error_def trim_hello)

lemma syntax_error_not_asleep: "\<not> asleep_error syntax_error"
  by (simp add: asleep_error_def syntax_error_def)

lemma reconnects_simps [simp]:
  "reconnects [] = 0"
  "reconnects (Call_wakeUpServer # es) = Suc (reconnects es)"
  "reconnects (Fetch m u b t # es) = reconnects es"
  "reconnects (Delay ms # es) = reconnects es"
  "reconnects (ConsoleLog txt # es) = reconnects es"
  "reconnects (ConsoleError txt # es) = reconnects es"
  by (simp_all add: reconnects_def)

lemma chat_request_reconnects [simp]:
  "reconnects (chat_request cfg m sid # es) = reconnects es"
  by (simp add: chat_request_def)

section \<open>The keep-alive ping\<close>

text \<open>
  Claim C7. For a keep-alive ping sent while the state is \<open>Ready\<close>: whatever response
  the server gives, of any status code, the state is left as it was and \<open>wakeUpServer\<close> is
  not called; when the request is rejected (a network error or the abort of the 5 s
  timer), the state becomes \<open>Checking\<close>, nothing else changes, and \<open>wakeUpServer\<close> is
  called once.
\<close>

theorem sendKeepAlive_failure_is_rejection:
  assumes "serverStatus st = Ready"
  shows "fst (sendKeepAlive cfg (Resolved response) st) = st
       \<and> reconnects (snd (sendKeepAlive cfg (Resolved response) st)) = 0
       \<and> fst (sendKeepAlive cfg (Rejected error) st) = st\<lparr>serverStatus := Checking\<rparr>
       \<and> reconnects (snd (sendKeepAlive cfg (Rejected error) st)) = 1"
  using assms by (simp add: sendKeepAlive_def reconnects_def Let_def)

theorem sendKeepAlive_failure_is_rejection_witness:
  "serverStatus chatting = Ready
   \<and> fst (sendKeepAlive default_config (http_html 500) chatting) = chatting
   \<and> reconnects (snd (sendKeepAlive default_config (http_html 500) chatting)) = 0
   \<and> serverStatus (fst (sendKeepAlive default_config (Rejected abort_error) chatting)) = Checking
   \<and> reconnects (snd (sendKeepAlive default_config (Rejected abort_error) chatting)) = 1"
proof -
  have ready: "serverStatus chatting = Ready"
    by (simp add: chatting_def)
  show ?thesis
    using ready sendKeepAlive_failure_is_rejection [OF ready, of default_config _ abort_error]
    by (simp add: http_html_def)
qed

section \<open>Session negotiation\<close>

lemma sendMessage_request:
  "can_send st \<Longrightarrow>
     hd (snd (sendMessage cfg r st)) = chat_request cfg (trim (input st)) (sessionId st)"
  by (simp add: sendMessage_def can_send_def chat_request_def Let_def split: prod.splits)

text \<open>
  Claim C9, as amended. When the state is \<open>Ready\<close> and the request to
  \<open>/api/session/init\<close> is rejected, or the body of its response does not parse, the
  exception is written to the console and the state is left exactly as it was:
  \<open>serverStatus\<close> stays \<open>Ready\<close> and \<open>sessionId\<close> keeps the value it had (\<open>Null\<close> only
  if none was stored before). A message typed afterwards is sent, and its request carries
  that earlier value of \<open>sessionId\<close>.
\<close>

theorem initSession_failure_leaves_state:
  assumes "serverStatus st = Ready" and "raised r = Some error"
  shows "fst (initSession cfg r st) = st
       \<and> snd (initSession cfg r st) =
           [Fetch ''POST'' (API_URL cfg @ ''/api/session/init'') None (Some 10000),
            ConsoleError (''Session init error: '' @ err_name error @ '': '' @ err_message error)]
       \<and> (trim typed \<noteq> [] \<and> \<not> loading st \<longrightarrow>
            hd (snd (sendMessage cfg r' ((fst (initSession cfg r st))\<lparr>input := typed\<rparr>)))
              = chat_request cfg (trim typed) (sessionId st))"
proof -
  have state: "fst (initSession cfg r st) = st"
    using assms
    by (auto simp: initSession_def raised_def Let_def split: fetch_result.splits sum.splits)
  have logged: "snd (initSession cfg r st) =
           [Fetch ''POST'' (API_URL cfg @ ''/api/session/init'') None (Some 10000),
            ConsoleError (''Session init error: '' @ err_name error @ '': '' @ err_message error)]"
    using assms
    by (auto simp: initSession_def raised_def Let_def split: fetch_result.splits sum.splits)
  have "hd (snd (sendMessage cfg r' (st\<lparr>input := typed\<rparr>)))
          = chat_request cfg (trim typed) (sessionId st)"
    if "trim typed \<noteq> []" and "\<not> loading st"
    using that assms(1) sendMessage_request [of "st\<lparr>input := typed\<rparr>" cfg r']
    by (simp add: can_send_def)
  then show ?thesis
    using state logged by simp
qed

theorem initSession_failure_leaves_state_witness:
  "serverStatus chatting = Ready \<and> raised (http_html 502) = Some syntax_error
   \<and> trim ''hello'' \<noteq> [] \<and> \<not> loading chatting
   \<and> fst (initSession default_config (http_html 502) chatting) = chatting
   \<and> hd (snd (sendMessage default_config (Rejected abort_error)
                 ((fst (initSession default_config (http_html 502) chatting))
                    \<lparr>input := ''hello''\<rparr>)))
       = chat_request default_config ''hello'' (Str ''abc123'')"
proof -
  have ready: "serverStatus chatting = Ready" and idle: "\<not> loading chatting"
    by (simp_all add: chatting_def initial_state_def)
  have r: "raised (http_html 502) = Some syntax_error"
    by (simp add: raised_def http_html_def)
  note inst =
    initSession_failure_leaves_state
      [OF ready r, of default_config "''hello''" "Rejected abort_error"]
  show ?thesis
    using ready idle r inst unfolding typed_hello trim_hello by blast
qed

text \<open>
  The claim as the specification states it fails: a session id stored before the backend
  went to sleep is still there after a failed negotiation, and the next chat request
  carries it.
\<close>

theorem initSession_failure_keeps_stale_session:
  "serverStatus chatting = Ready
   \<and> sessionId (fst (initSession default_config (Rejected network_error) chatting)) \<noteq> Null
   \<and> sessionId (fst (initSession default_config (Rejected network_error) chatting)) \<noteq> Undefined
   \<and> hd (snd (sendMessage default_config (http_json 200 no_fields)
                 (fst (initSession default_config (Rejected network_error) chatting))))
       = Fetch ''POST'' ''https://ai-agent-backend-1-g21l.onrender.com/api/chat''
           (Some [(''message'', Str ''hello''), (''sessionId'', Str ''abc123'')]) (Some 30000)"
proof -
  have same: "fst (initSession default_config (Rejected network_error) chatting) = chatting"
    by (simp add: initSession_def chatting_def Let_def)
  show ?thesis
    unfolding same
    by (simp add: sendMessage_request [OF can_send_chatting] chat_request_def typed_hello)
       (simp add: chatting_def default_config_def)
qed

section \<open>Chat exchange\<close>

lemma sendMessage_caught:
  assumes "can_send st" and "raised r = Some error"
  shows "sendMessage cfg r st =
     (let (st2, es) = chat_catch error
                        ((append_message (user_message st) st)
                           \<lparr>input := [], loading := True, typingIndicator := True\<rparr>)
      in (st2\<lparr>loading := False\<rparr>, chat_request cfg (trim (input st)) (sessionId st) # es))"
  using assms
  by (auto simp: sendMessage_def can_send_def raised_def chat_request_def user_message_def Let_def
           split: fetch_result.splits sum.splits prod.splits)

lemma sendMessage_parsed:
  assumes "can_send st" and "json response = Inr data"
  shows "sendMessage cfg (Resolved response) st =
     (let (st2, es) = chat_response response data
                        ((append_message (user_message st) st)
                           \<lparr>input := [], loading := True, typingIndicator := True\<rparr>)
      in (st2\<lparr>loading := False\<rparr>, chat_request cfg (trim (input st)) (sessionId st) # es))"
  using assms
  by (auto simp: sendMessage_def can_send_def chat_request_def user_message_def Let_def
           split: prod.splits)

text \<open>
  What the classification does where it is reached. An exception that passes the test of
  line 330 (an abort, or a message containing \<open>Failed to fetch\<close>) demotes the state to
  \<open>Waking\<close>, appends the placeholder and calls \<open>wakeUpServer\<close>; so does a status 503 or
  504 whose body parsed.
\<close>

lemma sendMessage_asleep_rejection:
  assumes "can_send st" and "raised r = Some error" and "asleep_error error"
  shows "serverStatus (fst (sendMessage cfg r st)) = Waking
       \<and> messages (fst (sendMessage cfg r st)) = messages st @ [user_message st, asleep_message]
       \<and> reconnects (snd (sendMessage cfg r st)) = 1"
  using assms(3)
  by (simp add: sendMessage_caught [OF assms(1,2)] chat_catch_def asleep_error_def
        append_message_def Let_def)

lemma sendMessage_503_504_parsed:
  assumes "can_send st" and "json response = Inr data"
    and "status response = 503 \<or> status response = 504"
  shows "serverStatus (fst (sendMessage cfg (Resolved response) st)) = Waking
       \<and> messages (fst (sendMessage cfg (Resolved response) st))
           = messages st @ [user_message st, asleep_message]
       \<and> reconnects (snd (sendMessage cfg (Resolved response) st)) = 1"
  using assms(3)
  by (auto simp: sendMessage_parsed [OF assms(1,2)] chat_response_def ok_def
        append_message_def Let_def)

text \<open>
  Any other exception appends the connectivity message, and any other status outside
  200-299 whose body parsed appends the error text of the body; the state stays \<open>Ready\<close>
  and \<open>wakeUpServer\<close> is not called.
\<close>

lemma sendMessage_other_rejection:
  assumes "can_send st" and "raised r = Some error" and "\<not> asleep_error error"
  shows "serverStatus (fst (sendMessage cfg r st)) = Ready
       \<and> messages (fst (sendMessage cfg r st))
           = messages st @ [user_message st, connection_error_message]
       \<and> reconnects (snd (sendMessage cfg r st)) = 0"
  using assms(1,3)
  by (simp add: sendMessage_caught [OF assms(1,2)] chat_catch_def asleep_error_def
        append_message_def can_send_def Let_def)

lemma sendMessage_other_status_parsed:
  assumes "can_send st" and "json response = Inr data" and "\<not> ok response"
    and "status response \<noteq> 503" and "status response \<noteq> 504"
  shows "serverStatus (fst (sendMessage cfg (Resolved response) st)) = Ready
       \<and> messages (fst (sendMessage cfg (Resolved response) st))
           = messages st @ [user_message st,
               \<lparr> sender = ''ai'',
                 msg_text = Str (CROSS_MARK @ '' ''
                                 @ ToString (js_or (data ''error'') (Str ''Kuch error hua''))),
                 responseTime = Undefined \<rparr>]
       \<and> reconnects (snd (sendMessage cfg (Resolved response) st)) = 0"
  using assms(1,3-)
  by (simp add: sendMessage_parsed [OF assms(1,2)] chat_response_def
        append_message_def can_send_def Let_def)

lemma reported_error_text:
  "e \<noteq> [] \<Longrightarrow> ToString (js_or (Str e) (Str ''Kuch error hua'')) = e"
  by (simp add: js_or_def)

text \<open>
  Claim C4, where the code departs from it. \<open>sendMessage\<close> parses the body (line 294)
  before it looks at the status (line 311). For a response with status 503 or 504 whose
  body is not JSON, the exception of \<open>response.json()\<close> goes to the \<open>catch\<close> block; unless
  it passes the test of line 330, the state stays \<open>Ready\<close>, the message appended is the
  connectivity message and not the placeholder, and \<open>wakeUpServer\<close> is not called.
\<close>

theorem sendMessage_unparsed_503_is_connection_error:
  assumes "can_send st" and "json response = Inl error" and "\<not> asleep_error error"
    and "status response = 503 \<or> status response = 504"
  shows "serverStatus (fst (sendMessage cfg (Resolved response) st)) = Ready
       \<and> messages (fst (sendMessage cfg (Resolved response) st))
           = messages st @ [user_message st, connection_error_message]
       \<and> reconnects (snd (sendMessage cfg (Resolved response) st)) = 0"
proof -
  have "raised (Resolved response) = Some error"
    using assms(2) by (simp add: raised_def)
  then show ?thesis
    using sendMessage_other_rejection [OF assms(1) _ assms(3)] by blast
qed

theorem sendMessage_unparsed_503_is_connection_error_witness:
  "can_send chatting \<and> \<not> asleep_error syntax_error
   \<and> serverStatus (fst (sendMessage default_config (http_html 503) chatting)) = Ready
   \<and> messages (fst (sendMessage default_config (http_html 503) chatting))
       = messages chatting @ [user_message chatting, connection_error_message]
   \<and> reconnects (snd (sendMessage default_config (http_html 503) chatting)) = 0"
proof -
  have body: "json \<lparr> status = 503, json = Inl syntax_error \<rparr> = Inl syntax_error"
    and code: "status \<lparr> status = 503, json = Inl syntax_error \<rparr> = 503
             \<or> status \<lparr> status = 503, json = Inl syntax_error \<rparr> = 504"
    by simp_all
  show ?thesis
    using can_send_chatting syntax_error_not_asleep
      sendMessage_unparsed_503_is_connection_error
        [OF can_send_chatting body syntax_error_not_asleep code, of default_config]
    unfolding http_html_def by blast
qed

section \<open>The wake trigger\<close>

lemma triggerWakeUp_rejected_tries_fallback:
  "requests (snd (triggerWakeUp cfg (Rejected error) trigger)) =
     [(API_URL cfg @ ''/api/wake'', Some 10000),
      (API_URL cfg @ ''/api/trigger-wake?token='' @ WAKE_TOKEN cfg, None)]"
  by (simp add: triggerWakeUp_def Let_def split: fetch_result.splits)

lemma triggerWakeUp_not_ok_returns_false:
  "\<not> ok wakeResponse \<Longrightarrow>
     triggerWakeUp cfg (Resolved wakeResponse) trigger =
       (False, [Fetch ''GET'' (API_URL cfg @ ''/api/wake'') None (Some 10000)])"
  by (simp add: triggerWakeUp_def Let_def)

text \<open>
  Claim C6, where the code departs from it. The fallback request sits in the \<open>catch\<close>
  block of the primary one, so it is sent when the primary request is rejected, and not
  when the primary request is answered with a status outside 200-299: for a primary
  answer of 503, \<open>triggerWakeUp\<close> returns \<open>false\<close> having sent the request to \<open>/api/wake\<close>
  and nothing else.
\<close>

theorem triggerWakeUp_http_503_skips_fallback:
  "triggerWakeUp default_config (http_html 503) trigger =
     (False, [Fetch ''GET'' (API_URL default_config @ ''/api/wake'') None (Some 10000)])"
  by (simp add: triggerWakeUp_not_ok_returns_false http_html_def ok_def)

text \<open>
  Claim C8, where the code departs from it. When the primary wake request is rejected, the
  fallback request to \<open>/api/trigger-wake\<close> is sent with no \<open>signal\<close>: no timer aborts it.
\<close>

theorem triggerWakeUp_fallback_without_signal:
  "requests (snd (triggerWakeUp default_config (Rejected network_error) trigger)) =
     [(''https://ai-agent-backend-1-g21l.onrender.com/api/wake'', Some 10000),
      (''https://ai-agent-backend-1-g21l.onrender.com/api/trigger-wake?token=your-secret-token-here'',
       None)]"
  by (simp add: triggerWakeUp_rejected_tries_fallback default_config_def)

text \<open>Every other request of the handlers is given an abort timer.\<close>

lemma other_requests_carry_abort_timers:
  "all_timed (snd (snd (checkServerHealth cfg r st)))"
  "all_timed (snd (sendKeepAlive cfg r st))"
  "all_timed (snd (initSession cfg r st))"
  "all_timed (snd (sendMessage cfg r st))"
  "all_timed (snd (loadRecentLeads cfg r st))"
  "0 < retries \<Longrightarrow> all_timed (snd (snd (wake_attempt cfg w r retries st)))"
  by (auto simp: all_timed_def checkServerHealth_def sendKeepAlive_def initSession_def
        sendMessage_def loadRecentLeads_def chat_response_def chat_catch_def wake_attempt_def
        wake_catch_def Let_def
      split: fetch_result.splits sum.splits if_splits prod.splits)

section \<open>The reconnection cycle\<close>

lemma wake_catch_Again:
  "\<exists>st1 es. wake_catch cfg w error retries st = (Again (Suc retries), st1, es)"
  by (simp add: wake_catch_def Let_def split: prod.splits)

lemma wake_catch_not_Returned:
  "wake_catch cfg w error retries st \<noteq> (Returned b, st1, es)"
  using wake_catch_Again [of cfg w error retries st] by auto

lemma wake_attempt_Returned:
  assumes "wake_attempt cfg w r retries st = (Returned b, st1, es)"
  shows "b \<and> st1 = st\<lparr>serverStatus := Ready, wakeAttempts := 0, messages := [welcome_message]\<rparr>"
  using assms
  by (auto simp: wake_attempt_def Let_def wake_catch_not_Returned
           split: fetch_result.splits if_splits sum.splits prod.splits)

text \<open>
  Whenever the cycle returns, it returns \<open>true\<close> in state \<open>Ready\<close> with the counter at 0
  and the welcome message alone in the list, or \<open>false\<close> in state \<open>Error\<close> with the
  terminal message.
\<close>

lemma wake_loop_result:
  assumes returns: "wake_loop cfg w i retries st tr = Some y"
  shows "(fst y \<and> serverStatus (fst (snd y)) = Ready \<and> wakeAttempts (fst (snd y)) = 0
            \<and> messages (fst (snd y)) = [welcome_message])
       \<or> (\<not> fst y \<and> serverStatus (fst (snd y)) = Error
            \<and> connectionError (fst (snd y)) = Some ''Server wake failed after multiple attempts'')"
  by (rule wake_loop.raw_induct
        [where P = "\<lambda>cfg w i retries st tr y.
            (fst y \<and> serverStatus (fst (snd y)) = Ready \<and> wakeAttempts (fst (snd y)) = 0
               \<and> messages (fst (snd y)) = [welcome_message])
          \<or> (\<not> fst y \<and> serverStatus (fst (snd y)) = Error
               \<and> connectionError (fst (snd y)) = Some ''Server wake failed after multiple attempts'')",
         OF _ returns])
     (auto simp: wake_failed_def split: if_splits prod.splits pass.splits
           dest: wake_attempt_Returned)

text \<open>
  Claim C10. When \<open>wakeUpServer\<close> returns with the state \<open>Ready\<close>, the message list is
  the welcome message alone, whatever the list held before; and when \<open>checkServerHealth\<close>
  takes a state other than \<open>Ready\<close> to \<open>Ready\<close>, the message list is its welcome-back
  message alone. Neither appends to the earlier conversation.
\<close>

theorem ready_transition_replaces_messages:
  "(wakeUpServer cfg w st = Some (b, st1, tr) \<longrightarrow> serverStatus st1 = Ready
      \<longrightarrow> messages st1 = [welcome_message])
   \<and> (serverStatus st \<noteq> Ready
      \<longrightarrow> serverStatus (fst (snd (checkServerHealth cfg r st))) = Ready
      \<longrightarrow> messages (fst (snd (checkServerHealth cfg r st))) = [welcome_back_message])"
proof (intro conjI impI)
  assume "wakeUpServer cfg w st = Some (b, st1, tr)" and "serverStatus st1 = Ready"
  then show "messages st1 = [welcome_message]"
    using wake_loop_result
      [of cfg w 0 0 "st\<lparr>connectionError := None, wakeAttempts := wakeAttempts st + 1\<rparr>" "[]"
          "(b, st1, tr)"]
    by (simp add: wakeUpServer_def)
next
  assume "serverStatus st \<noteq> Ready"
    and "serverStatus (fst (snd (checkServerHealth cfg r st))) = Ready"
  then show "messages (fst (snd (checkServerHealth cfg r st))) = [welcome_back_message]"
    by (auto simp: checkServerHealth_def Let_def split: fetch_result.splits if_splits)
qed

lemma wakeUpServer_interrupted:
  "\<exists>st1 tr. wakeUpServer default_config (world_of [] (http_json 200 no_fields)) interrupted
             = Some (True, st1, tr) \<and> serverStatus st1 = Ready"
  by (simp add: wakeUpServer_def wake_loop.simps wake_attempt_def maxRetries_def world_of_def
        http_json_def ok_def Let_def)

theorem ready_transition_replaces_messages_witness:
  "length (messages interrupted) = 3 \<and> serverStatus interrupted \<noteq> Ready
   \<and> (\<exists>st1 tr. wakeUpServer default_config (world_of [] (http_json 200 no_fields)) interrupted
                  = Some (True, st1, tr)
                \<and> serverStatus st1 = Ready \<and> messages st1 = [welcome_message])
   \<and> serverStatus (fst (snd (checkServerHealth default_config (http_json 200 no_fields)
                                 interrupted))) = Ready
   \<and> messages (fst (snd (checkServerHealth default_config (http_json 200 no_fields)
                             interrupted))) = [welcome_back_message]"
proof -
  obtain st1 tr where run:
      "wakeUpServer default_config (world_of [] (http_json 200 no_fields)) interrupted
         = Some (True, st1, tr)"
    and ready: "serverStatus st1 = Ready"
    using wakeUpServer_interrupted by blast
  have waking: "serverStatus interrupted \<noteq> Ready"
    by (simp add: interrupted_eq)
  have restored:
    "serverStatus (fst (snd (checkServerHealth default_config (http_json 200 no_fields)
                               interrupted))) = Ready"
    by (simp add: checkServerHealth_def http_json_def ok_def interrupted_eq Let_def)
  note inst = ready_transition_replaces_messages
        [of default_config "world_of [] (http_json 200 no_fields)" interrupted True st1 tr
            "http_json 200 no_fields"]
  have "messages st1 = [welcome_message]"
    using inst run ready by blast
  moreover have "messages (fst (snd (checkServerHealth default_config (http_json 200 no_fields)
                                        interrupted))) = [welcome_back_message]"
    using inst waking restored by blast
  moreover have "length (messages interrupted) = 3"
    by (simp add: interrupted_eq)
  ultimately show ?thesis
    using run ready waking restored by blast
qed

subsection \<open>One pass, by the outcome of its probe\<close>

lemma wake_attempt_not_ok:
  "probe_not_ok r \<Longrightarrow> wake_attempt cfg w r retries st = (Again retries, st, [health_request cfg])"
  by (auto simp: wake_attempt_def probe_not_ok_def health_request_def split: fetch_result.splits)

lemma wake_attempt_succeeds:
  "probe_succeeds r \<Longrightarrow>
     wake_attempt cfg w r retries st =
       (Returned True,
        st\<lparr>serverStatus := Ready, wakeAttempts := 0, messages := [welcome_message]\<rparr>,
        [health_request cfg])"
  by (auto simp: wake_attempt_def probe_succeeds_def health_request_def
           split: fetch_result.splits sum.splits)

lemma wake_attempt_raises:
  "probe_raises r = Some error \<Longrightarrow>
     wake_attempt cfg w r retries st =
       (case wake_catch cfg w error retries st of
          (p, st1, es) \<Rightarrow> (p, st1, health_request cfg # es))"
  by (auto simp: wake_attempt_def probe_raises_def raised_def health_request_def
           split: fetch_result.splits sum.splits if_splits)

lemma probe_outcomes:
  "probe_succeeds r \<or> probe_not_ok r \<or> (\<exists>error. probe_raises r = Some error)"
  by (auto simp: probe_succeeds_def probe_not_ok_def probe_raises_def raised_def
           split: fetch_result.splits sum.splits)

subsection \<open>Traces of the cycle\<close>

lemma delays_append [simp]: "delays (es @ fs) = delays es @ delays fs"
  by (induction es rule: delays.induct) simp_all

lemma requests_append [simp]: "requests (es @ fs) = requests es @ requests fs"
  by (induction es rule: requests.induct) simp_all

lemma requests_to_append [simp]:
  "requests_to cfg path (es @ fs) = requests_to cfg path es + requests_to cfg path fs"
  by (simp add: requests_to_def)

lemma requests_to_Nil [simp]: "requests_to cfg path [] = 0"
  by (simp add: requests_to_def)

lemma requests_to_health_request [simp]:
  "requests_to cfg ''/api/health'' (health_request cfg # es) = Suc (requests_to cfg ''/api/health'' es)"
  "requests_to cfg ''/api/wake'' (health_request cfg # es) = requests_to cfg ''/api/wake'' es"
  "delays (health_request cfg # es) = delays es"
  by (simp_all add: requests_to_def health_request_def)

lemma triggerWakeUp_trace:
  "delays (snd (triggerWakeUp cfg wake trigger)) = []"
  "requests_to cfg ''/api/wake'' (snd (triggerWakeUp cfg wake trigger)) = 1"
  "requests_to cfg ''/api/health'' (snd (triggerWakeUp cfg wake trigger)) = 0"
  by (auto simp: triggerWakeUp_def requests_to_def Let_def split: fetch_result.splits)

lemma requests_to_other [simp]:
  "requests_to cfg path (Delay ms # es) = requests_to cfg path es"
  "requests_to cfg path (ConsoleLog txt # es) = requests_to cfg path es"
  "requests_to cfg path (ConsoleError txt # es) = requests_to cfg path es"
  "requests_to cfg path (Call_wakeUpServer # es) = requests_to cfg path es"
  by (simp_all add: requests_to_def)

lemma wake_catch_trace:
  "\<exists>st1 es. wake_catch cfg w error retries st = (Again (Suc retries), st1, es)
     \<and> delays es = (if Suc retries < maxRetries then [backoff retries] else [])
     \<and> requests_to cfg ''/api/wake'' es = (if retries = 0 then 1 else 0)
     \<and> requests_to cfg ''/api/health'' es = 0"
  by (simp add: wake_catch_def Let_def triggerWakeUp_trace backoff_def)

lemma wake_loop_exhausted:
  "\<not> retries < maxRetries \<Longrightarrow> wake_loop cfg w i retries st tr = Some (False, wake_failed st, tr)"
  by (subst wake_loop.simps) simp

lemma wake_loop_succeeds:
  "retries < maxRetries \<Longrightarrow> probe_succeeds (health_probe w i) \<Longrightarrow>
     wake_loop cfg w i retries st tr =
       Some (True,
             st\<lparr>serverStatus := Ready, wakeAttempts := 0, messages := [welcome_message]\<rparr>,
             tr @ [health_request cfg])"
  by (subst wake_loop.simps) (simp add: wake_attempt_succeeds)

lemma wake_loop_raises:
  assumes "retries < maxRetries" and "probe_raises (health_probe w i) = Some error"
  shows "\<exists>st1 es. wake_loop cfg w i retries st tr =
                     wake_loop cfg w (Suc i) (Suc retries) st1 (tr @ health_request cfg # es)
     \<and> delays es = (if Suc retries < maxRetries then [backoff retries] else [])
     \<and> requests_to cfg ''/api/wake'' es = (if retries = 0 then 1 else 0)
     \<and> requests_to cfg ''/api/health'' es = 0"
proof -
  obtain st1 es where catch: "wake_catch cfg w error retries st = (Again (Suc retries), st1, es)"
    and trace: "delays es = (if Suc retries < maxRetries then [backoff retries] else [])"
      "requests_to cfg ''/api/wake'' es = (if retries = 0 then 1 else 0)"
      "requests_to cfg ''/api/health'' es = 0"
    using wake_catch_trace [of cfg w error retries st] by blast
  have "wake_loop cfg w i retries st tr =
          wake_loop cfg w (Suc i) (Suc retries) st1 (tr @ health_request cfg # es)"
    using assms by (subst wake_loop.simps) (simp add: wake_attempt_raises catch)
  then show ?thesis
    using trace by blast
qed

text \<open>
  The loop unrolled by one pass and the test that follows it: the case analysis that
  \<open>probe_answered\<close> makes for a call in flight.
\<close>

lemma wake_loop_pass:
  assumes "retries < maxRetries"
  shows "wake_loop cfg w i retries st tr =
     (case wake_attempt cfg w (health_probe w i) retries st of
        (Returned b, st1, es) \<Rightarrow> Some (b, st1, tr @ es)
      | (Again retries1, st1, es) \<Rightarrow>
          if retries1 < maxRetries
          then wake_loop cfg w (Suc i) retries1 st1 (tr @ es)
          else Some (False, wake_failed st1, tr @ es))"
proof (cases "wake_attempt cfg w (health_probe w i) retries st")
  case (fields p st1 es)
  show ?thesis
  proof (cases p)
    case (Returned b)
    then show ?thesis
      using assms fields by (subst wake_loop.simps) simp
  next
    case (Again retries1)
    then show ?thesis
      using assms fields
      by (subst wake_loop.simps) (simp add: wake_loop_exhausted)
  qed
qed

lemmas run_defs =
  wakeUpServer_def wake_loop.simps wake_attempt_def wake_catch_def triggerWakeUp_def
  maxRetries_def baseDelay_def world_of_def http_json_def http_html_def ok_def
  initial_state_def default_config_def network_error_def syntax_error_def
  summary_def requests_to_def wake_failed_def Let_def

subsection \<open>Probes answered with a status outside 200-299\<close>

text \<open>
  Such a probe raises nothing, so the \<open>catch\<close> block, the only place where \<open>retries\<close>
  is incremented, is skipped: the loop test sees the same \<open>retries\<close> and the next probe is
  sent at once. A cycle whose probes are all answered so never passes the loop test.
\<close>

lemma wake_loop_never_ok_Some:
  assumes returns: "wake_loop cfg w i retries st tr = Some y"
  shows "\<not> (retries = 0 \<and> never_ok w)"
  by (rule wake_loop.raw_induct
        [where P = "\<lambda>cfg w i retries st tr y. \<not> (retries = 0 \<and> never_ok w)", OF _ returns])
     (fastforce simp: wake_attempt_not_ok never_ok_def maxRetries_def)

lemma wakeUpServer_never_ok:
  "never_ok w \<Longrightarrow> wakeUpServer cfg w st = None"
  using wake_loop_never_ok_Some
    [of cfg w 0 0 "st\<lparr>connectionError := None, wakeAttempts := wakeAttempts st + 1\<rparr>" "[]"]
  by (cases "wakeUpServer cfg w st") (auto simp: wakeUpServer_def)

text \<open>
  Claim C1, where the code departs from it. With every health probe answered by HTTP 503,
  the cycle does not terminate after 5 probes: it never returns.
\<close>

theorem wakeUpServer_http_503_never_returns:
  "wakeUpServer default_config (world_of [] (http_html 503)) initial_state = None"
  by (rule wakeUpServer_never_ok)
     (simp add: never_ok_def probe_not_ok_def world_of_def http_html_def ok_def)

text \<open>
  The budget does bound the cycle when none of its first five probes is answered with a
  status outside 200-299: the cycle then returns after at most five probes.
\<close>

lemma wake_loop_returns:
  assumes "n = maxRetries - retries" and "retries \<le> maxRetries"
    and "\<forall>j. retries + j < maxRetries \<longrightarrow> \<not> probe_not_ok (health_probe w (i + j))"
  shows "\<exists>b st1 es. wake_loop cfg w i retries st tr = Some (b, st1, tr @ es)
     \<and> requests_to cfg ''/api/health'' es \<le> maxRetries - retries"
  using assms
proof (induction n arbitrary: retries i st tr)
  case 0
  then have "\<not> retries < maxRetries" by simp
  then show ?case
    by (auto simp: wake_loop_exhausted)
next
  case (Suc n)
  then have less: "retries < maxRetries" by simp
  have budget: "n = maxRetries - Suc retries" and within: "Suc retries \<le> maxRetries"
    using Suc.prems(1) by simp_all
  have "\<not> probe_not_ok (health_probe w i)"
    using Suc.prems(3) [rule_format, of 0] less by simp
  then consider "probe_succeeds (health_probe w i)"
    | error where "probe_raises (health_probe w i) = Some error"
    using probe_outcomes [of "health_probe w i"] by blast
  then show ?case
  proof cases
    case 1
    then show ?thesis
      using less by (auto simp: wake_loop_succeeds)
  next
    case 2
    then obtain st1 es where step:
        "wake_loop cfg w i retries st tr =
           wake_loop cfg w (Suc i) (Suc retries) st1 (tr @ health_request cfg # es)"
      and trace: "requests_to cfg ''/api/health'' es = 0"
      using wake_loop_raises [OF less] by blast
    have later: "\<forall>j. Suc retries + j < maxRetries
                    \<longrightarrow> \<not> probe_not_ok (health_probe w (Suc i + j))"
      using Suc.prems(3) [rule_format, of "Suc j" for j] by simp
    obtain b st2 es2 where rest:
        "wake_loop cfg w (Suc i) (Suc retries) st1 (tr @ health_request cfg # es)
           = Some (b, st2, (tr @ health_request cfg # es) @ es2)"
        "requests_to cfg ''/api/health'' es2 \<le> maxRetries - Suc retries"
      using Suc.IH [OF budget within later, of st1 "tr @ health_request cfg # es"]
      by auto
    show ?thesis
      using step rest trace less
      by (intro exI [of _ b] exI [of _ st2] exI [of _ "health_request cfg # es @ es2"]) auto
  qed
qed

lemma wakeUpServer_returns_when_probes_decide:
  assumes "\<forall>i<maxRetries. \<not> probe_not_ok (health_probe w i)"
  shows "\<exists>b st1 tr. wakeUpServer cfg w st = Some (b, st1, tr)
     \<and> requests_to cfg ''/api/health'' tr \<le> maxRetries"
  using wake_loop_returns
    [of maxRetries 0 w 0 cfg "st\<lparr>connectionError := None, wakeAttempts := wakeAttempts st + 1\<rparr>" "[]"]
    assms
  by (simp add: wakeUpServer_def)

subsection \<open>Probes that raise\<close>

lemma wake_loop_all_raise:
  assumes "n = maxRetries - retries" and "retries \<le> maxRetries"
    and "\<forall>j. retries + j < maxRetries \<longrightarrow> probe_raises (health_probe w (i + j)) \<noteq> None"
  shows "\<exists>st1 es. wake_loop cfg w i retries st tr = Some (False, st1, tr @ es)
     \<and> serverStatus st1 = Error
     \<and> connectionError st1 = Some ''Server wake failed after multiple attempts''
     \<and> delays es = map backoff [retries ..< maxRetries - 1]
     \<and> requests_to cfg ''/api/health'' es = maxRetries - retries
     \<and> requests_to cfg ''/api/wake'' es = (if retries = 0 \<and> 0 < n then 1 else 0)"
  using assms
proof (induction n arbitrary: retries i st tr)
  case 0
  then have "\<not> retries < maxRetries" by simp
  then show ?case
    using 0 by (simp add: wake_loop_exhausted wake_failed_def)
next
  case (Suc n)
  then have less: "retries < maxRetries" by simp
  have budget: "n = maxRetries - Suc retries" and within: "Suc retries \<le> maxRetries"
    using Suc.prems(1) by simp_all
  obtain error where "probe_raises (health_probe w i) = Some error"
    using Suc.prems(3) [rule_format, of 0] less by auto
  then obtain st1 es where step:
      "wake_loop cfg w i retries st tr =
         wake_loop cfg w (Suc i) (Suc retries) st1 (tr @ health_request cfg # es)"
    and trace: "delays es = (if Suc retries < maxRetries then [backoff retries] else [])"
      "requests_to cfg ''/api/wake'' es = (if retries = 0 then 1 else 0)"
      "requests_to cfg ''/api/health'' es = 0"
    using wake_loop_raises [OF less] by blast
  have later: "\<forall>j. Suc retries + j < maxRetries
                  \<longrightarrow> probe_raises (health_probe w (Suc i + j)) \<noteq> None"
    using Suc.prems(3) [rule_format, of "Suc j" for j] by simp
  obtain st2 es2 where rest:
      "wake_loop cfg w (Suc i) (Suc retries) st1 (tr @ health_request cfg # es)
         = Some (False, st2, (tr @ health_request cfg # es) @ es2)"
      "serverStatus st2 = Error"
      "connectionError st2 = Some ''Server wake failed after multiple attempts''"
      "delays es2 = map backoff [Suc retries ..< maxRetries - 1]"
      "requests_to cfg ''/api/health'' es2 = maxRetries - Suc retries"
      "requests_to cfg ''/api/wake'' es2 = 0"
    using Suc.IH [OF budget within later, of st1 "tr @ health_request cfg # es"]
    by auto
  have delays_eq: "delays (health_request cfg # es @ es2) = map backoff [retries ..< maxRetries - 1]"
    using trace(1) rest(4) less by (auto simp: upt_conv_Cons)
  show ?case
    using step rest trace less delays_eq
    by (intro exI [of _ st2] exI [of _ "health_request cfg # es @ es2"]) auto
qed

lemma backoff_values: "map backoff [0 ..< maxRetries - 1] = [3000, 6000, 12000, 24000]"
  by (simp add: backoff_def baseDelay_def maxRetries_def upt_conv_Cons)

text \<open>
  When each of the first five probes raises (the request is rejected, or the body of an
  \<open>ok\<close> response does not parse), the cycle returns \<open>false\<close> in state \<open>Error\<close> with the
  terminal message, after five probes, one call of \<open>triggerWakeUp\<close> and the four delays
  3000, 6000, 12000, 24000.
\<close>

lemma wakeUpServer_all_probes_raise:
  assumes "\<forall>i<maxRetries. probe_raises (health_probe w i) \<noteq> None"
  shows "\<exists>st1 tr. wakeUpServer cfg w st = Some (False, st1, tr)
     \<and> serverStatus st1 = Error
     \<and> connectionError st1 = Some ''Server wake failed after multiple attempts''
     \<and> delays tr = [3000, 6000, 12000, 24000]
     \<and> requests_to cfg ''/api/health'' tr = 5
     \<and> requests_to cfg ''/api/wake'' tr = 1"
  using wake_loop_all_raise
    [of maxRetries 0 w 0 cfg "st\<lparr>connectionError := None, wakeAttempts := wakeAttempts st + 1\<rparr>" "[]"]
    assms backoff_values
  by (simp add: wakeUpServer_def) (simp add: maxRetries_def)

text \<open>
  Claim C2, where the code departs from it. Five probes that fail with HTTP 503 do not end
  the cycle in \<open>Error\<close> and no delay is awaited between them: a sixth probe is sent, and when
  it succeeds the cycle returns \<open>true\<close> in state \<open>Ready\<close>, with six probes and no delay.
\<close>

theorem wakeUpServer_five_http_503_then_ok:
  "summary default_config
     (wakeUpServer default_config
        (world_of (replicate 5 (http_html 503)) (http_json 200 no_fields)) initial_state)
   = Some (True, Ready, 0, [], 6, 0)"
  by (simp add: run_defs numeral_eq_Suc)

subsection \<open>Probes that raise, then one that succeeds\<close>

lemma wake_loop_raise_then_succeed:
  assumes "retries + k < maxRetries"
    and "\<forall>j<k. probe_raises (health_probe w (i + j)) \<noteq> None"
    and "probe_succeeds (health_probe w (i + k))"
  shows "\<exists>st1 es. wake_loop cfg w i retries st tr = Some (True, st1, tr @ es)
     \<and> serverStatus st1 = Ready \<and> wakeAttempts st1 = 0 \<and> messages st1 = [welcome_message]
     \<and> delays es = map backoff [retries ..< retries + k]
     \<and> requests_to cfg ''/api/health'' es = Suc k
     \<and> requests_to cfg ''/api/wake'' es = (if retries = 0 \<and> 0 < k then 1 else 0)"
  using assms
proof (induction k arbitrary: retries i st tr)
  case 0
  then show ?case
    by (auto simp: wake_loop_succeeds)
next
  case (Suc k)
  then have less: "retries < maxRetries" and more: "Suc retries < maxRetries" by simp_all
  obtain error where "probe_raises (health_probe w i) = Some error"
    using Suc.prems(2) [rule_format, of 0] by auto
  then obtain st1 es where step:
      "wake_loop cfg w i retries st tr =
         wake_loop cfg w (Suc i) (Suc retries) st1 (tr @ health_request cfg # es)"
    and trace: "delays es = [backoff retries]"
      "requests_to cfg ''/api/wake'' es = (if retries = 0 then 1 else 0)"
      "requests_to cfg ''/api/health'' es = 0"
    using wake_loop_raises [OF less] more by fastforce
  have later: "\<forall>j<k. probe_raises (health_probe w (Suc i + j)) \<noteq> None"
    using Suc.prems(2) [rule_format, of "Suc j" for j] by simp
  obtain st2 es2 where rest:
      "wake_loop cfg w (Suc i) (Suc retries) st1 (tr @ health_request cfg # es)
         = Some (True, st2, (tr @ health_request cfg # es) @ es2)"
      "serverStatus st2 = Ready" "wakeAttempts st2 = 0" "messages st2 = [welcome_message]"
      "delays es2 = map backoff [Suc retries ..< Suc retries + k]"
      "requests_to cfg ''/api/health'' es2 = Suc k"
      "requests_to cfg ''/api/wake'' es2 = 0"
    using Suc.IH [of "Suc retries" "Suc i" st1 "tr @ health_request cfg # es"] Suc.prems(1,3) later
    by auto
  have delays_eq: "delays (health_request cfg # es @ es2) = map backoff [retries ..< retries + Suc k]"
    using trace(1) rest(5) by (simp add: upt_conv_Cons del: upt_Suc)
  show ?case
    using step rest trace delays_eq
    by (intro exI [of _ st2] exI [of _ "health_request cfg # es @ es2"]) auto
qed

text \<open>
  When the first \<open>k\<close> probes raise and the next one succeeds, for \<open>k\<close> below 5, the cycle
  returns \<open>true\<close> in state \<open>Ready\<close> with the counter at 0 and the welcome message, and
  \<open>triggerWakeUp\<close> is called once if \<open>k\<close> is positive and not at all if \<open>k\<close> is 0.
\<close>

lemma wakeUpServer_raise_then_succeed:
  assumes "k < maxRetries"
    and "\<forall>j<k. probe_raises (health_probe w j) \<noteq> None"
    and "probe_succeeds (health_probe w k)"
  shows "\<exists>st1 tr. wakeUpServer cfg w st = Some (True, st1, tr)
     \<and> serverStatus st1 = Ready \<and> wakeAttempts st1 = 0 \<and> messages st1 = [welcome_message]
     \<and> delays tr = map backoff [0 ..< k]
     \<and> requests_to cfg ''/api/health'' tr = Suc k
     \<and> requests_to cfg ''/api/wake'' tr = (if 0 < k then 1 else 0)"
  using wake_loop_raise_then_succeed
    [of 0 k w 0 cfg "st\<lparr>connectionError := None, wakeAttempts := wakeAttempts st + 1\<rparr>" "[]"]
    assms
  by (simp add: wakeUpServer_def)

lemma rejected_then_ok:
  "summary default_config
     (wakeUpServer default_config (world_of [Rejected network_error] (http_json 200 no_fields))
        initial_state)
   = Some (True, Ready, 0, [3000], 2, 1)"
  by (simp add: run_defs)

text \<open>
  Claim C3, where the code departs from it. When the first probe fails with HTTP 503 and
  the second succeeds, the cycle ends in \<open>Ready\<close> with the counter at 0, but
  \<open>triggerWakeUp\<close> is not called at all: no request goes to \<open>/api/wake\<close>.
\<close>

theorem wakeUpServer_http_503_then_ok:
  "summary default_config
     (wakeUpServer default_config (world_of [http_html 503] (http_json 200 no_fields))
        initial_state)
   = Some (True, Ready, 0, [], 2, 0)"
  by (simp add: run_defs)

section \<open>Manual retry while a cycle is in flight\<close>

lemma first_probe_failed_state:
  "serverStatus (app first_probe_failed) = Waking" "in_flight first_probe_failed = [1]"
  by (simp_all add: first_probe_failed_def probe_answered_def mount_def call_wakeUpServer_def
        wake_attempt_def wake_catch_def maxRetries_def Let_def split: prod.splits)

text \<open>
  Claim C5, as amended. A click on the retry button, in state \<open>Waking\<close> or \<open>Error\<close>,
  starts a new cycle whatever is in flight already: the calls in flight are those there
  were and one more, at \<open>retries = 0\<close>; the state is \<open>Waking\<close>, \<open>wakeAttempts\<close> is one more
  and \<open>connectionError\<close> is cleared. Nothing in the code looks for a running cycle.
\<close>

theorem click_retry_starts_another_cycle:
  assumes "serverStatus (app s) = Waking \<or> serverStatus (app s) = Error"
  shows "in_flight (click_retry s) = in_flight s @ [0]
       \<and> serverStatus (app (click_retry s)) = Waking
       \<and> wakeAttempts (app (click_retry s)) = wakeAttempts (app s) + 1
       \<and> connectionError (app (click_retry s)) = None"
  using assms by (auto simp: click_retry_def manualWakeUp_def call_wakeUpServer_def)

theorem click_retry_starts_another_cycle_witness:
  "serverStatus (app first_probe_failed) = Waking
   \<and> in_flight first_probe_failed = [1]
   \<and> in_flight (click_retry first_probe_failed) = [1, 0]"
proof -
  have waking: "serverStatus (app first_probe_failed) = Waking
              \<or> serverStatus (app first_probe_failed) = Error"
    by (simp add: first_probe_failed_state)
  show ?thesis
    using click_retry_starts_another_cycle [OF waking]
    by (simp add: first_probe_failed_state)
qed

text \<open>
  The claim as the specification states it fails: after the first probe of the cycle
  started at mount has failed, the state is \<open>Waking\<close> with that cycle in flight; a click
  on the retry button leaves two cycles in flight, and each goes on with its own
  \<open>retries\<close> as its probes are answered.
\<close>

lemma probe_answered_rejected:
  assumes "k < length (in_flight s)" and "Suc (in_flight s ! k) < maxRetries"
  shows "in_flight (probe_answered cfg w k (Rejected error) s) = (in_flight s)[k := Suc (in_flight s ! k)]"
  using assms wake_catch_Again [of cfg w error "in_flight s ! k" "app s"]
  by (auto simp: probe_answered_def wake_attempt_def Let_def split: prod.splits)

theorem two_cycles_in_flight_after_retry:
  "serverStatus (app first_probe_failed) = Waking
   \<and> length (in_flight first_probe_failed) = 1
   \<and> length (in_flight (click_retry first_probe_failed)) = 2
   \<and> in_flight (probe_answered default_config offline 1 (Rejected network_error)
                 (probe_answered default_config offline 0 (Rejected network_error)
                    (click_retry first_probe_failed))) = [2, 1]"
proof -
  have waking: "serverStatus (app first_probe_failed) = Waking
              \<or> serverStatus (app first_probe_failed) = Error"
    by (simp add: first_probe_failed_state)
  have clicked: "in_flight (click_retry first_probe_failed) = [1, 0]"
    using waking
    by (auto simp: click_retry_def manualWakeUp_def call_wakeUpServer_def first_probe_failed_state)
  have one: "in_flight (probe_answered default_config offline 0 (Rejected network_error)
                          (click_retry first_probe_failed)) = [2, 0]"
    by (subst probe_answered_rejected) (simp_all add: clicked maxRetries_def)
  have two: "in_flight (probe_answered default_config offline 1 (Rejected network_error)
                 (probe_answered default_config offline 0 (Rejected network_error)
                    (click_retry first_probe_failed))) = [2, 1]"
    by (subst probe_answered_rejected) (simp_all add: one maxRetries_def)
  show ?thesis
    using two by (simp add: first_probe_failed_state clicked)
qed

end
